theory Spec2Isabelle
  imports Complex_Main "HOL-Library.Sublist"
begin

section \<open>Mental-health predictor: hybrid classifier and tip generator\<close>

text \<open>
  Shallow embedding of \<^verbatim>\<open>app_hybrid_final_v8.py\<close>: the helper
  \<^verbatim>\<open>generate_input_tips\<close> (lines 18--44) and the body of
  \<^verbatim>\<open>if submitted:\<close> up to the append to the session log (lines 67--114).

  Conventions.
  \<^item> Python \<^verbatim>\<open>int\<close> is \<open>int\<close>. Python and NumPy floating-point numbers are
    idealised as \<open>real\<close>: the comparisons of the slider value with integer
    constants are exact on floats, but the rounding of \<^verbatim>\<open>score * 0.3\<close> and
    NaN entries are not modelled.
  \<^item> Python \<^verbatim>\<open>str\<close> is \<open>string\<close>; a character beyond ASCII is written as the
    bytes of its UTF-8 encoding.
  \<^item> A raised exception is \<open>Inl\<close> of the result type \<open>error + 'a\<close>. Nothing in the
    file catches an exception, so an \<open>Inl\<close> is returned unchanged by every caller.
  \<^item> The trained network is not part of the repository: \<^verbatim>\<open>model.predict\<close> is
    a parameter \<open>model\<close>, from the feature vector to the flattened prediction.
\<close>

subsection \<open>Exceptions and library operations\<close>

datatype error = ValueError | KeyError | IndexError

text \<open>\<^verbatim>\<open>xs.index(x)\<close>: the first position of \<open>x\<close>, \<^verbatim>\<open>ValueError\<close> when absent.\<close>

fun list_index :: "'a list \<Rightarrow> 'a \<Rightarrow> error + nat" where
  "list_index [] x = Inl ValueError"
| "list_index (y # ys) x =
     (if y = x then Inr 0
      else case list_index ys x of Inl e \<Rightarrow> Inl e | Inr i \<Rightarrow> Inr (Suc i))"

text \<open>
  \<^verbatim>\<open>np.argmax\<close> on the flattened array: one pass that keeps the position of the
  best entry so far and replaces it only by a strictly larger one, so the first
  occurrence of the maximum wins; \<^verbatim>\<open>ValueError\<close> on an empty array.
\<close>

fun argmax_from :: "real list \<Rightarrow> nat \<Rightarrow> nat \<Rightarrow> real \<Rightarrow> nat" where
  "argmax_from [] i best mx = best"
| "argmax_from (x # xs) i best mx =
     (if mx < x then argmax_from xs (Suc i) i x else argmax_from xs (Suc i) best mx)"

definition np_argmax :: "real list \<Rightarrow> error + nat" where
  "np_argmax xs = (case xs of [] \<Rightarrow> Inl ValueError | x # rest \<Rightarrow> Inr (argmax_from rest 1 0 x))"

text \<open>\<^verbatim>\<open>np.max\<close>: the largest entry, \<^verbatim>\<open>ValueError\<close> on an empty sequence.\<close>

definition np_max :: "real list \<Rightarrow> error + real" where
  "np_max xs = (case xs of [] \<Rightarrow> Inl ValueError | x # rest \<Rightarrow> Inr (fold max rest x))"

subsection \<open>Form input\<close>

text \<open>
  The values of the form widgets (lines 53--62), with the field names of the
  \<^verbatim>\<open>"Input"\<close> dictionary of a log entry (lines 104--113).
\<close>

record UserInput =
  Gender :: string
  Age :: int
  Sleep_Duration :: real
  Quality_of_Sleep :: int
  Physical_Activity :: int
  Stress_Level :: int
  BMI :: string
  Daily_Steps :: int

subsection \<open>Tip generator (lines 18--44)\<close>

definition tip_low_sleep :: string where
  "tip_low_sleep = [CHR 0xF0, CHR 0x9F, CHR 0x98, CHR 0xB4] @ '' Try to increase your sleep to 7''
     @ [CHR 0xE2, CHR 0x80, CHR 0x93] @ ''9 hours consistently.''"

definition tip_oversleep :: string where
  "tip_oversleep = [CHR 0xF0, CHR 0x9F, CHR 0x98, CHR 0xB4]
     @ '' Oversleeping can also affect mood. Aim for 7'' @ [CHR 0xE2, CHR 0x80, CHR 0x93]
     @ ''9 hours.''"

definition tip_sleep_quality :: string where
  "tip_sleep_quality = [CHR 0xF0, CHR 0x9F, CHR 0x9B, CHR 0x8C]
     @ '' Improve your sleep quality by maintaining a regular bedtime and avoiding screens before bed.''"

definition tip_activity :: string where
  "tip_activity = [CHR 0xF0, CHR 0x9F, CHR 0x9A, CHR 0xB6]
     @ '' Start light activities like walking to improve mood and sleep.''"

definition tip_stress :: string where
  "tip_stress = [CHR 0xF0, CHR 0x9F, CHR 0xA7, CHR 0x98]
     @ '' High stress detected. Try mindfulness, breathing exercises, or short breaks during the day.''"

definition tip_steps :: string where
  "tip_steps = [CHR 0xF0, CHR 0x9F, CHR 0x91, CHR 0x9F] @ '' Increase your daily steps ''
     @ [CHR 0xE2, CHR 0x80, CHR 0x94] @ '' aim for at least 5000'' @ [CHR 0xE2, CHR 0x80, CHR 0x93]
     @ ''8000 per day.''"

definition tip_diet :: string where
  "tip_diet = [CHR 0xF0, CHR 0x9F, CHR 0x8D, CHR 0x8E]
     @ '' Consider a balanced diet and moderate exercise for better weight management.''"

definition tip_elder :: string where
  "tip_elder = [CHR 0xF0, CHR 0x9F, CHR 0xA7, CHR 0x93]
     @ '' Gentle exercises like stretching or tai chi can improve physical and mental well-being.''"

text \<open>
  The list \<^verbatim>\<open>tips\<close> is threaded through the eight tests; \<^verbatim>\<open>tips.append(t)\<close>
  is \<open>tips @ [t]\<close>.
\<close>

definition generate_input_tips ::
  "string \<Rightarrow> int \<Rightarrow> real \<Rightarrow> int \<Rightarrow> int \<Rightarrow> int \<Rightarrow> string \<Rightarrow> int \<Rightarrow> string list" where
  "generate_input_tips gender age sleep_duration quality_of_sleep physical_activity
       stress_level bmi_category daily_steps =
     (let tips0 = [];
          tips1 = (if sleep_duration < 6 then tips0 @ [tip_low_sleep]
                   else if sleep_duration > 9 then tips0 @ [tip_oversleep]
                   else tips0);
          tips2 = (if quality_of_sleep < 4 then tips1 @ [tip_sleep_quality] else tips1);
          tips3 = (if physical_activity = 0 then tips2 @ [tip_activity] else tips2);
          tips4 = (if stress_level > 6 then tips3 @ [tip_stress] else tips3);
          tips5 = (if daily_steps < 3000 then tips4 @ [tip_steps] else tips4);
          tips6 = (if bmi_category = ''Obese'' then tips5 @ [tip_diet] else tips5);
          tips7 = (if age > 60 \<and> physical_activity < 3 then tips6 @ [tip_elder] else tips6)
      in tips7)"

text \<open>The call of line 133, on the form values.\<close>

definition input_tips :: "UserInput \<Rightarrow> string list" where
  "input_tips u = generate_input_tips (Gender u) (Age u) (Sleep_Duration u) (Quality_of_Sleep u)
     (Physical_Activity u) (Stress_Level u) (BMI u) (Daily_Steps u)"

subsection \<open>Feature encoding (lines 68--73)\<close>

definition bmi_options :: "string list" where
  "bmi_options = [''Underweight'', ''Normal'', ''Overweight'', ''Obese'']"

definition gender_val :: "string \<Rightarrow> int" where
  "gender_val gender = (if gender = ''Male'' then 1 else 0)"

definition bmi_val :: "string \<Rightarrow> error + nat" where
  "bmi_val bmi_category = list_index bmi_options bmi_category"

text \<open>
  The array mixes integers and one float, so NumPy stores all eight entries as
  floats; the reshape to \<^verbatim>\<open>(1, 1, 8)\<close> keeps their order.
\<close>

definition input_data :: "UserInput \<Rightarrow> error + real list" where
  "input_data u =
     (case bmi_val (BMI u) of
        Inl e \<Rightarrow> Inl e
      | Inr b \<Rightarrow> Inr [of_int (gender_val (Gender u)), of_int (Age u), Sleep_Duration u,
                      of_int (Quality_of_Sleep u), of_int (Physical_Activity u),
                      of_int (Stress_Level u), of_nat b, of_int (Daily_Steps u)])"

subsection \<open>Prediction, override and confidence blending (lines 75--114)\<close>

text \<open>The dictionary \<^verbatim>\<open>label_map\<close>, in insertion order.\<close>

definition label_map :: "(nat \<times> string) list" where
  "label_map = [(0, ''No Disorder''), (1, ''Anxiety''), (2, ''Depression'')]"

text \<open>\<^verbatim>\<open>label_map[k]\<close>: \<^verbatim>\<open>KeyError\<close> for a key that is not in the dictionary.\<close>

definition label_of :: "nat \<Rightarrow> error + string" where
  "label_of k = (case map_of label_map k of None \<Rightarrow> Inl KeyError | Some l \<Rightarrow> Inr l)"

text \<open>The \<^verbatim>\<open>if\<close>/\<^verbatim>\<open>elif\<close> chain of lines 83--90; \<open>None\<close> is Python's \<^verbatim>\<open>None\<close>.\<close>

definition override_rule :: "UserInput \<Rightarrow> string option" where
  "override_rule u =
     (if Stress_Level u \<ge> 9 \<and> Quality_of_Sleep u \<le> 3 then Some ''Anxiety''
      else if Sleep_Duration u \<le> 4 \<and> Physical_Activity u \<le> 2 \<and> Stress_Level u \<ge> 6
        then Some ''Depression''
      else if Stress_Level u \<le> 3 \<and> Sleep_Duration u \<ge> 7 \<and> Quality_of_Sleep u \<ge> 7
              \<and> Physical_Activity u \<ge> 4
        then Some ''No Disorder''
      else None)"

text \<open>
  Lines 96--98: the position of the label among the values of \<^verbatim>\<open>label_map\<close>,
  every score times 0.3, then the assignment at that position, which raises
  \<^verbatim>\<open>IndexError\<close> beyond the end of the list.
\<close>

definition blend :: "string \<Rightarrow> real list \<Rightarrow> error + real list" where
  "blend result confidence_scores =
     (case list_index (map snd label_map) result of
        Inl e \<Rightarrow> Inl e
      | Inr idx \<Rightarrow>
          (let softened = map (\<lambda>score. score * 0.3) confidence_scores
           in if idx < length softened then Inr (softened[idx := 0.7]) else Inl IndexError))"

text \<open>
  Lines 92--98. \<^verbatim>\<open>if override:\<close> is false for \<^verbatim>\<open>None\<close> and for the empty string.
\<close>

definition apply_override ::
  "string option \<Rightarrow> string \<Rightarrow> real list \<Rightarrow> error + (string \<times> real list)" where
  "apply_override override result confidence_scores =
     (case override of
        None \<Rightarrow> Inr (result, confidence_scores)
      | Some label \<Rightarrow>
          if label = [] then Inr (result, confidence_scores)
          else (case blend label confidence_scores of
                  Inl e \<Rightarrow> Inl e
                | Inr blended \<Rightarrow> Inr (label, blended)))"

record log_entry =
  Predicted :: string
  Confidence :: real
  Input :: UserInput

text \<open>
  What the page holds after line 114: the final label, the confidence scores handed
  to the charts, and the session log.
\<close>

record outcome =
  final_result :: string
  final_scores :: "real list"
  session_logs :: "log_entry list"

definition classify ::
  "(real list \<Rightarrow> real list) \<Rightarrow> UserInput \<Rightarrow> log_entry list \<Rightarrow> error + outcome" where
  "classify model u logs =
     (case input_data u of
        Inl e \<Rightarrow> Inl e
      | Inr x \<Rightarrow>
          (let prediction = model x in
           case np_argmax prediction of
             Inl e \<Rightarrow> Inl e
           | Inr predicted_class \<Rightarrow>
               (case label_of predicted_class of
                  Inl e \<Rightarrow> Inl e
                | Inr result \<Rightarrow>
                    (case apply_override (override_rule u) result prediction of
                       Inl e \<Rightarrow> Inl e
                     | Inr (result', confidence_scores) \<Rightarrow>
                         (case np_max confidence_scores of
                            Inl e \<Rightarrow> Inl e
                          | Inr top_score \<Rightarrow>
                              Inr \<lparr>final_result = result',
                                   final_scores = confidence_scores,
                                   session_logs = logs @
                                     [\<lparr>Predicted = result', Confidence = top_score, Input = u\<rparr>]\<rparr>)))))"

subsection \<open>Example inputs and models\<close>

text \<open>
  Concrete form values and model outputs on which the theorems below are
  instantiated: the two examples of the specification, the default values of the
  form, and models with a tie and with outputs that are not three entries long.
\<close>

definition example_model :: "real list \<Rightarrow> real list" where
  "example_model x = [0.1, 0.2, 0.7]"

definition tied_model :: "real list \<Rightarrow> real list" where
  "tied_model x = [0.4, 0.4, 0.2]"

definition four_class_model :: "real list \<Rightarrow> real list" where
  "four_class_model x = [0.5, 0.2, 0.2, 0.1]"

definition late_peak_model :: "real list \<Rightarrow> real list" where
  "late_peak_model x = [0.1, 0.2, 0.3, 0.4]"

definition two_class_model :: "real list \<Rightarrow> real list" where
  "two_class_model x = [0.6, 0.4]"

definition silent_model :: "real list \<Rightarrow> real list" where
  "silent_model x = []"

definition example_anxiety_input :: UserInput where
  "example_anxiety_input =
     \<lparr>Gender = ''Male'', Age = 25, Sleep_Duration = 6, Quality_of_Sleep = 2,
      Physical_Activity = 5, Stress_Level = 9, BMI = ''Normal'', Daily_Steps = 5000\<rparr>"

definition example_depression_input :: UserInput where
  "example_depression_input =
     \<lparr>Gender = ''Female'', Age = 40, Sleep_Duration = 3.5, Quality_of_Sleep = 5,
      Physical_Activity = 1, Stress_Level = 7, BMI = ''Overweight'', Daily_Steps = 2000\<rparr>"

definition example_healthy_input :: UserInput where
  "example_healthy_input =
     \<lparr>Gender = ''Female'', Age = 30, Sleep_Duration = 7, Quality_of_Sleep = 8,
      Physical_Activity = 5, Stress_Level = 2, BMI = ''Normal'', Daily_Steps = 8000\<rparr>"

definition default_input :: UserInput where
  "default_input =
     \<lparr>Gender = ''Male'', Age = 25, Sleep_Duration = 6, Quality_of_Sleep = 5,
      Physical_Activity = 5, Stress_Level = 5, BMI = ''Normal'', Daily_Steps = 5000\<rparr>"

subsection \<open>The tip rules as the specification lists them\<close>

text \<open>
  Section 4.3 of the specification, rule by rule and in its order: each rule is a
  condition with the one tip it contributes; the oversleep rule is the "else"
  branch of the low-sleep rule. The second definition collects the tips of the
  rules whose condition holds. Both follow the specification's words, for the
  comparison with \<open>generate_input_tips\<close>.
\<close>

definition spec_tip_rules ::
  "int \<Rightarrow> real \<Rightarrow> int \<Rightarrow> int \<Rightarrow> int \<Rightarrow> string \<Rightarrow> int \<Rightarrow> (bool \<times> string) list" where
  "spec_tip_rules age sleep_duration quality_of_sleep physical_activity stress_level
       bmi_category daily_steps =
     [(sleep_duration < 6, tip_low_sleep),
      (\<not> sleep_duration < 6 \<and> sleep_duration > 9, tip_oversleep),
      (quality_of_sleep < 4, tip_sleep_quality),
      (physical_activity = 0, tip_activity),
      (stress_level > 6, tip_stress),
      (daily_steps < 3000, tip_steps),
      (bmi_category = ''Obese'', tip_diet),
      (age > 60 \<and> physical_activity < 3, tip_elder)]"

definition spec_tips ::
  "int \<Rightarrow> real \<Rightarrow> int \<Rightarrow> int \<Rightarrow> int \<Rightarrow> string \<Rightarrow> int \<Rightarrow> string list" where
  "spec_tips age sleep_duration quality_of_sleep physical_activity stress_level
       bmi_category daily_steps =
     map snd (filter fst (spec_tip_rules age sleep_duration quality_of_sleep physical_activity
       stress_level bmi_category daily_steps))"

section \<open>Auxiliary facts\<close>

lemmas input_defs = input_data_def bmi_val_def bmi_options_def gender_val_def

lemma input_data_anxiety:
  "input_data example_anxiety_input = Inr [1, 25, 6, 2, 5, 9, 1, 5000]"
  by (simp add: input_defs example_anxiety_input_def)

lemma input_data_depression:
  "input_data example_depression_input = Inr [0, 40, 3.5, 5, 1, 7, 2, 2000]"
  by (simp add: input_defs example_depression_input_def)

lemma input_data_healthy:
  "input_data example_healthy_input = Inr [0, 30, 7, 8, 5, 2, 1, 8000]"
  by (simp add: input_defs example_healthy_input_def)

lemma input_data_default:
  "input_data default_input = Inr [1, 25, 6, 5, 5, 5, 1, 5000]"
  by (simp add: input_defs default_input_def)

lemma all_less3: "(\<forall>i<3. P i) \<longleftrightarrow> P (0::nat) \<and> P 1 \<and> P 2"
proof -
  have "\<And>i::nat. i < 3 \<longleftrightarrow> i = 0 \<or> i = 1 \<or> i = 2" by arith
  then show ?thesis by auto
qed

lemma np_argmax3:
  "np_argmax [a, b, c] = Inr (if a < b then (if b < c then 2 else 1) else (if a < c then 2 else 0))"
  by (simp add: np_argmax_def)

lemma override_rule_labels:
  assumes "override_rule u = Some l"
  shows "l = ''Anxiety'' \<or> l = ''Depression'' \<or> l = ''No Disorder''"
  using assms by (auto simp: override_rule_def split: if_splits)

lemma label_index:
  "list_index (map snd label_map) ''No Disorder'' = Inr 0"
  "list_index (map snd label_map) ''Anxiety'' = Inr 1"
  "list_index (map snd label_map) ''Depression'' = Inr 2"
  by (simp_all add: label_map_def)

lemma label_lookup:
  "map_of label_map 0 = Some ''No Disorder''"
  "map_of label_map 1 = Some ''Anxiety''"
  "map_of label_map 2 = Some ''Depression''"
  by (simp_all add: label_map_def)

lemma override_rule_index:
  assumes "override_rule u = Some l"
  shows "\<exists>k<3. list_index (map snd label_map) l = Inr k \<and> map_of label_map k = Some l \<and> l \<noteq> []"
  using override_rule_labels [OF assms] by (auto simp: label_map_def)

lemma length3_cases:
  assumes "length (xs :: 'a list) = 3"
  obtains a b c where "xs = [a, b, c]"
  using assms by (auto simp: length_Suc_conv numeral_3_eq_3)

lemma np_max_nonempty: "xs \<noteq> [] \<Longrightarrow> \<exists>t. np_max xs = Inr t"
  by (cases xs) (simp_all add: np_max_def)

lemma classify_override_len3:
  assumes enc: "input_data u = Inr x"
    and len: "length (model x) = 3"
    and ov: "override_rule u = Some l"
    and idx: "list_index (map snd label_map) l = Inr k"
    and k: "k < 3"
    and ne: "l \<noteq> []"
  shows "\<exists>top_score. np_max ((map (\<lambda>s. s * 0.3) (model x))[k := 0.7]) = Inr top_score \<and>
     classify model u logs =
       Inr \<lparr>final_result = l,
            final_scores = (map (\<lambda>s. s * 0.3) (model x))[k := 0.7],
            session_logs = logs @ [\<lparr>Predicted = l, Confidence = top_score, Input = u\<rparr>]\<rparr>"
proof -
  obtain a b c where p: "model x = [a, b, c]"
    using len by (rule length3_cases)
  have am: "\<exists>i. np_argmax (model x) = Inr i \<and> i < 3"
    by (simp add: p np_argmax_def)
  then obtain i where i: "np_argmax (model x) = Inr i" "i < 3" by blast
  from i(2) have "i = 0 \<or> i = 1 \<or> i = 2" by arith
  then obtain base where base: "label_of i = Inr base"
    by (auto simp: label_of_def label_map_def)
  have bl: "blend l (model x) = Inr ((map (\<lambda>s. s * 0.3) (model x))[k := 0.7])"
    using idx k len by (simp add: blend_def)
  have ao: "apply_override (override_rule u) base (model x)
      = Inr (l, (map (\<lambda>s. s * 0.3) (model x))[k := 0.7])"
    using ov ne bl by (simp add: apply_override_def)
  have "(map (\<lambda>s. s * 0.3) (model x))[k := 0.7] \<noteq> []"
    using len by auto
  then obtain t where top: "np_max ((map (\<lambda>s. s * 0.3) (model x))[k := 0.7]) = Inr t"
    using np_max_nonempty by blast
  show ?thesis
    using enc i(1) base ao top by (simp add: classify_def)
qed

lemma classify_no_override_len3:
  assumes enc: "input_data u = Inr x"
    and p: "model x = [a, b, c]"
    and ov: "override_rule u = None"
    and am: "np_argmax [a, b, c] = Inr i"
    and lab: "map_of label_map i = Some l"
  shows "classify model u logs =
       Inr \<lparr>final_result = l, final_scores = [a, b, c],
            session_logs = logs @ [\<lparr>Predicted = l, Confidence = max (max a b) c, Input = u\<rparr>]\<rparr>"
  using enc p ov am lab
  by (simp add: classify_def label_of_def apply_override_def np_max_def)

lemma np_max3: "np_max [a, b, c] = Inr (max (max a b) c)"
  by (simp add: np_max_def)

lemma label_of_small: "i < 3 \<Longrightarrow> \<exists>l. label_of i = Inr l"
proof -
  assume "i < 3"
  then have "i = 0 \<or> i = 1 \<or> i = 2" by arith
  then show ?thesis
    by (elim disjE) (simp_all add: label_of_def label_map_def)
qed

lemma label_of_large: "3 \<le> i \<Longrightarrow> label_of i = Inl KeyError"
  by (simp add: label_of_def label_map_def)

lemma np_argmax_Inr_nonempty: "np_argmax xs = Inr i \<Longrightarrow> xs \<noteq> []"
  by (auto simp: np_argmax_def)

lemmas tip_defs = tip_low_sleep_def tip_oversleep_def tip_sleep_quality_def tip_activity_def
  tip_stress_def tip_steps_def tip_diet_def tip_elder_def

lemma tips_distinct:
  "distinct [tip_low_sleep, tip_oversleep, tip_sleep_quality, tip_activity, tip_stress,
     tip_steps, tip_diet, tip_elder]"
  by (simp add: tip_defs)

lemma subseq_distinct: "subseq xs ys \<Longrightarrow> distinct ys \<Longrightarrow> distinct xs"
  using subseqs_distinctD [of xs ys] by simp

lemma in_fired_tips:
  "t \<in> set (map snd (filter fst rs)) \<longleftrightarrow> (True, t) \<in> set rs"
  by (induction rs) auto

lemma tip_low_sleep_fires:
  assumes "tip_low_sleep \<in> set (spec_tips age sleep_duration quality_of_sleep
     physical_activity stress_level bmi_category daily_steps)"
  shows "sleep_duration < 6"
proof -
  have "(True, tip_low_sleep) \<in> set (spec_tip_rules age sleep_duration quality_of_sleep
     physical_activity stress_level bmi_category daily_steps)"
    using assms by (simp only: spec_tips_def in_fired_tips)
  moreover have "tip_low_sleep \<notin> {tip_oversleep, tip_sleep_quality, tip_activity, tip_stress,
     tip_steps, tip_diet, tip_elder}"
    using tips_distinct by simp
  ultimately show ?thesis
    by (simp add: spec_tip_rules_def)
qed

lemma tip_oversleep_fires:
  assumes "tip_oversleep \<in> set (spec_tips age sleep_duration quality_of_sleep
     physical_activity stress_level bmi_category daily_steps)"
  shows "\<not> sleep_duration < 6 \<and> sleep_duration > 9"
proof -
  have "(True, tip_oversleep) \<in> set (spec_tip_rules age sleep_duration quality_of_sleep
     physical_activity stress_level bmi_category daily_steps)"
    using assms by (simp only: spec_tips_def in_fired_tips)
  moreover have "tip_oversleep \<notin> {tip_low_sleep, tip_sleep_quality, tip_activity, tip_stress,
     tip_steps, tip_diet, tip_elder}"
    using tips_distinct by auto
  ultimately show ?thesis
    by (simp add: spec_tip_rules_def)
qed

lemma generate_input_tips_spec:
  "generate_input_tips gender age sleep_duration quality_of_sleep physical_activity stress_level
       bmi_category daily_steps
     = spec_tips age sleep_duration quality_of_sleep physical_activity stress_level
         bmi_category daily_steps"
  by (simp add: generate_input_tips_def spec_tips_def spec_tip_rules_def)

lemma spec_tips_sublist:
  "subseq (spec_tips age sleep_duration quality_of_sleep physical_activity stress_level
       bmi_category daily_steps)
     [tip_low_sleep, tip_oversleep, tip_sleep_quality, tip_activity, tip_stress,
      tip_steps, tip_diet, tip_elder]"
proof -
  have "subseq (map snd (filter fst rs)) (map snd rs)" for rs :: "(bool \<times> string) list"
    by (rule subseq_map) simp
  from this [of "spec_tip_rules age sleep_duration quality_of_sleep physical_activity
       stress_level bmi_category daily_steps"]
  show ?thesis
    unfolding spec_tips_def by (simp add: spec_tip_rules_def)
qed

lemma blend_short:
  assumes "list_index (map snd label_map) l = Inr k" and "length p \<le> k"
  shows "blend l p = Inl IndexError"
  using assms by (simp add: blend_def)

lemma blend_fits:
  assumes "list_index (map snd label_map) l = Inr k" and "k < length p"
  shows "blend l p = Inr ((map (\<lambda>s. s * 0.3) p)[k := 0.7])"
  using assms by (simp add: blend_def)

lemma classify_after_override:
  assumes "input_data u = Inr x"
    and "np_argmax (model x) = Inr i"
    and "label_of i = Inr base"
    and "apply_override (override_rule u) base (model x) = Inr (l, v)"
    and "v \<noteq> []"
  shows "\<exists>r. classify model u logs = Inr r \<and> final_result r = l \<and> final_scores r = v
           \<and> (\<exists>e. session_logs r = logs @ [e] \<and> Predicted e = l \<and> Input e = u)"
proof -
  obtain t where "np_max v = Inr t"
    using np_max_nonempty [OF assms(5)] by blast
  then show ?thesis
    using assms(1-4) by (simp add: classify_def)
qed

section \<open>Override rules\<close>

text \<open>
  C1. For every input with stress level at least 9 and quality of sleep at most 3,
  the classification succeeds with the label "Anxiety", whatever three confidences
  the model returns (the input is one the form can produce: its BMI category is
  encoded, so the feature vector \<open>x\<close> exists).
\<close>

theorem C1_anxiety_override:
  assumes "input_data u = Inr x"
    and "length (model x) = 3"
    and "Stress_Level u \<ge> 9"
    and "Quality_of_Sleep u \<le> 3"
  shows "\<exists>r. classify model u logs = Inr r \<and> final_result r = ''Anxiety''"
proof -
  have ov: "override_rule u = Some ''Anxiety''"
    using assms(3,4) by (simp add: override_rule_def)
  from classify_override_len3 [of u x model "''Anxiety''" 1 logs] assms(1,2) ov label_index(2)
  show ?thesis by auto
qed

theorem C1_anxiety_override_witness:
  "input_data example_anxiety_input = Inr [1, 25, 6, 2, 5, 9, 1, 5000]
   \<and> length (example_model [1, 25, 6, 2, 5, 9, 1, 5000]) = 3
   \<and> Stress_Level example_anxiety_input \<ge> 9
   \<and> Quality_of_Sleep example_anxiety_input \<le> 3
   \<and> (\<exists>r. classify example_model example_anxiety_input [] = Inr r
          \<and> final_result r = ''Anxiety'')"
proof -
  note e = input_data_anxiety
  have l: "length (example_model [1, 25, 6, 2, 5, 9, 1, 5000]) = 3"
    by (simp add: example_model_def)
  have s: "Stress_Level example_anxiety_input \<ge> 9"
    by (simp add: example_anxiety_input_def)
  have q: "Quality_of_Sleep example_anxiety_input \<le> 3"
    by (simp add: example_anxiety_input_def)
  from C1_anxiety_override
         [of example_anxiety_input "[1, 25, 6, 2, 5, 9, 1, 5000]" example_model "[]"] e l s q
  show ?thesis by blast
qed

text \<open>
  C2. For every input with sleep duration at most 4, physical activity at most 2
  and stress level at least 6 that does not satisfy the anxiety rule, the
  classification succeeds with the label "Depression", whatever three confidences
  the model returns.
\<close>

theorem C2_depression_override:
  assumes "input_data u = Inr x"
    and "length (model x) = 3"
    and "Sleep_Duration u \<le> 4"
    and "Physical_Activity u \<le> 2"
    and "Stress_Level u \<ge> 6"
    and "\<not> (Stress_Level u \<ge> 9 \<and> Quality_of_Sleep u \<le> 3)"
  shows "\<exists>r. classify model u logs = Inr r \<and> final_result r = ''Depression''"
proof -
  have ov: "override_rule u = Some ''Depression''"
    using assms(3-6) by (simp add: override_rule_def)
  from classify_override_len3 [of u x model "''Depression''" 2 logs] assms(1,2) ov label_index(3)
  show ?thesis by auto
qed

theorem C2_depression_override_witness:
  "input_data example_depression_input = Inr [0, 40, 3.5, 5, 1, 7, 2, 2000]
   \<and> length (example_model [0, 40, 3.5, 5, 1, 7, 2, 2000]) = 3
   \<and> Sleep_Duration example_depression_input \<le> 4
   \<and> Physical_Activity example_depression_input \<le> 2
   \<and> Stress_Level example_depression_input \<ge> 6
   \<and> \<not> (Stress_Level example_depression_input \<ge> 9
          \<and> Quality_of_Sleep example_depression_input \<le> 3)
   \<and> (\<exists>r. classify example_model example_depression_input [] = Inr r
          \<and> final_result r = ''Depression'')"
proof -
  note e = input_data_depression
  have l: "length (example_model [0, 40, 3.5, 5, 1, 7, 2, 2000]) = 3"
    by (simp add: example_model_def)
  have h: "Sleep_Duration example_depression_input \<le> 4"
    "Physical_Activity example_depression_input \<le> 2"
    "Stress_Level example_depression_input \<ge> 6"
    "\<not> (Stress_Level example_depression_input \<ge> 9
        \<and> Quality_of_Sleep example_depression_input \<le> 3)"
    by (simp_all add: example_depression_input_def)
  from C2_depression_override
         [of example_depression_input "[0, 40, 3.5, 5, 1, 7, 2, 2000]" example_model "[]"] e l h
  show ?thesis by blast
qed

text \<open>
  C3. For every input with stress level at most 3, sleep duration at least 7,
  quality of sleep at least 7 and physical activity at least 4, on which neither
  the anxiety rule nor the depression rule matched, the classification succeeds
  with the label "No Disorder", whatever three confidences the model returns.
\<close>

theorem C3_no_disorder_override:
  assumes "input_data u = Inr x"
    and "length (model x) = 3"
    and "Stress_Level u \<le> 3"
    and "Sleep_Duration u \<ge> 7"
    and "Quality_of_Sleep u \<ge> 7"
    and "Physical_Activity u \<ge> 4"
    and "\<not> (Stress_Level u \<ge> 9 \<and> Quality_of_Sleep u \<le> 3)"
    and "\<not> (Sleep_Duration u \<le> 4 \<and> Physical_Activity u \<le> 2 \<and> Stress_Level u \<ge> 6)"
  shows "\<exists>r. classify model u logs = Inr r \<and> final_result r = ''No Disorder''"
proof -
  have ov: "override_rule u = Some ''No Disorder''"
    using assms(3-8) by (simp add: override_rule_def)
  from classify_override_len3 [of u x model "''No Disorder''" 0 logs] assms(1,2) ov label_index(1)
  show ?thesis by auto
qed

theorem C3_no_disorder_override_witness:
  "input_data example_healthy_input = Inr [0, 30, 7, 8, 5, 2, 1, 8000]
   \<and> length (example_model [0, 30, 7, 8, 5, 2, 1, 8000]) = 3
   \<and> Stress_Level example_healthy_input \<le> 3
   \<and> Sleep_Duration example_healthy_input \<ge> 7
   \<and> Quality_of_Sleep example_healthy_input \<ge> 7
   \<and> Physical_Activity example_healthy_input \<ge> 4
   \<and> \<not> (Stress_Level example_healthy_input \<ge> 9 \<and> Quality_of_Sleep example_healthy_input \<le> 3)
   \<and> \<not> (Sleep_Duration example_healthy_input \<le> 4 \<and> Physical_Activity example_healthy_input \<le> 2
          \<and> Stress_Level example_healthy_input \<ge> 6)
   \<and> (\<exists>r. classify example_model example_healthy_input [] = Inr r
          \<and> final_result r = ''No Disorder'')"
proof -
  note e = input_data_healthy
  have l: "length (example_model [0, 30, 7, 8, 5, 2, 1, 8000]) = 3"
    by (simp add: example_model_def)
  have h: "Stress_Level example_healthy_input \<le> 3"
    "Sleep_Duration example_healthy_input \<ge> 7"
    "Quality_of_Sleep example_healthy_input \<ge> 7"
    "Physical_Activity example_healthy_input \<ge> 4"
    "\<not> (Stress_Level example_healthy_input \<ge> 9 \<and> Quality_of_Sleep example_healthy_input \<le> 3)"
    "\<not> (Sleep_Duration example_healthy_input \<le> 4 \<and> Physical_Activity example_healthy_input \<le> 2
        \<and> Stress_Level example_healthy_input \<ge> 6)"
    by (simp_all add: example_healthy_input_def)
  from C3_no_disorder_override
         [of example_healthy_input "[0, 30, 7, 8, 5, 2, 1, 8000]" example_model "[]"] e l h
  show ?thesis by blast
qed

section \<open>Confidence blending\<close>

text \<open>
  C4. For every input on which an override rule fires and every model output of
  three entries, the classification succeeds with the overriding label, and the
  returned vector has three entries: 0.7 at the class index of the overriding label
  and 0.3 times the model's confidence at the other two, without renormalisation.
  In particular the model output [0.1, 0.2, 0.7] on the specification's anxiety
  example gives [0.03, 0.7, 0.21].
\<close>

theorem C4_blended_confidences:
  assumes "input_data u = Inr x"
    and "length (model x) = 3"
    and "override_rule u = Some l"
  shows "(\<exists>r idx. classify model u logs = Inr r \<and> final_result r = l
            \<and> idx < 3 \<and> map_of label_map idx = Some l
            \<and> length (final_scores r) = 3
            \<and> final_scores r ! idx = 0.7
            \<and> (\<forall>i<3. i \<noteq> idx \<longrightarrow> final_scores r ! i = 0.3 * model x ! i))
       \<and> (\<exists>r. classify example_model example_anxiety_input logs = Inr r
            \<and> final_result r = ''Anxiety'' \<and> final_scores r = [0.03, 0.7, 0.21])"
proof
  obtain k where k: "k < 3" "list_index (map snd label_map) l = Inr k"
    "map_of label_map k = Some l" "l \<noteq> []"
    using override_rule_index [OF assms(3)] by blast
  from classify_override_len3 [of u x model l k logs] assms k
  obtain r where r: "classify model u logs = Inr r" "final_result r = l"
    "final_scores r = (map (\<lambda>s. s * 0.3) (model x))[k := 0.7]"
    by force
  have "length (final_scores r) = 3"
    using r(3) assms(2) by simp
  moreover have "final_scores r ! k = 0.7"
    using r(3) assms(2) k(1) by simp
  moreover have "\<forall>i<3. i \<noteq> k \<longrightarrow> final_scores r ! i = 0.3 * model x ! i"
    using r(3) assms(2) by simp
  ultimately show "\<exists>r idx. classify model u logs = Inr r \<and> final_result r = l
            \<and> idx < 3 \<and> map_of label_map idx = Some l
            \<and> length (final_scores r) = 3
            \<and> final_scores r ! idx = 0.7
            \<and> (\<forall>i<3. i \<noteq> idx \<longrightarrow> final_scores r ! i = 0.3 * model x ! i)"
    using r(1,2) k(1,3) by blast
next
  have ov: "override_rule example_anxiety_input = Some ''Anxiety''"
    by (simp add: override_rule_def example_anxiety_input_def)
  have l: "length (example_model [1, 25, 6, 2, 5, 9, 1, 5000]) = 3"
    by (simp add: example_model_def)
  from classify_override_len3
         [of example_anxiety_input "[1, 25, 6, 2, 5, 9, 1, 5000]" example_model "''Anxiety''" 1 logs]
       input_data_anxiety l ov label_index(2)
  obtain r where r: "classify example_model example_anxiety_input logs = Inr r"
    "final_result r = ''Anxiety''"
    "final_scores r = (map (\<lambda>s. s * 0.3) (example_model [1, 25, 6, 2, 5, 9, 1, 5000]))[1 := 0.7]"
    by force
  have "final_scores r = [0.03, 0.7, 0.21]"
    using r(3) by (simp add: example_model_def)
  then show "\<exists>r. classify example_model example_anxiety_input logs = Inr r
            \<and> final_result r = ''Anxiety'' \<and> final_scores r = [0.03, 0.7, 0.21]"
    using r(1,2) by blast
qed

theorem C4_blended_confidences_witness:
  "input_data example_depression_input = Inr [0, 40, 3.5, 5, 1, 7, 2, 2000]
   \<and> length (example_model [0, 40, 3.5, 5, 1, 7, 2, 2000]) = 3
   \<and> override_rule example_depression_input = Some ''Depression''
   \<and> (\<exists>r idx. classify example_model example_depression_input [] = Inr r
          \<and> final_result r = ''Depression''
          \<and> idx < 3 \<and> map_of label_map idx = Some ''Depression''
          \<and> length (final_scores r) = 3
          \<and> final_scores r ! idx = 0.7
          \<and> (\<forall>i<3. i \<noteq> idx \<longrightarrow>
                final_scores r ! i = 0.3 * example_model [0, 40, 3.5, 5, 1, 7, 2, 2000] ! i))"
proof -
  note e = input_data_depression
  have l: "length (example_model [0, 40, 3.5, 5, 1, 7, 2, 2000]) = 3"
    by (simp add: example_model_def)
  have ov: "override_rule example_depression_input = Some ''Depression''"
    by (simp add: override_rule_def example_depression_input_def)
  from C4_blended_confidences
         [of example_depression_input "[0, 40, 3.5, 5, 1, 7, 2, 2000]" example_model
             "''Depression''" "[]"] e l ov
  show ?thesis by blast
qed

section \<open>No override\<close>

text \<open>
  C5. For every input on which no override rule fires and every model output of
  three entries, the classification succeeds, the returned vector is the model
  output unchanged, and the returned label is the class name of an index \<open>i\<close>
  whose entry is maximal and strictly larger than every entry before it (the first
  maximum: ties go to the lowest index).
\<close>

theorem C5_model_label_without_override:
  assumes "input_data u = Inr x"
    and "length (model x) = 3"
    and "override_rule u = None"
  shows "\<exists>r i. classify model u logs = Inr r
            \<and> final_scores r = model x
            \<and> i < 3 \<and> map_of label_map i = Some (final_result r)
            \<and> (\<forall>j<3. model x ! j \<le> model x ! i)
            \<and> (\<forall>j<i. model x ! j < model x ! i)"
proof -
  obtain a b c where p: "model x = [a, b, c]"
    using assms(2) by (rule length3_cases)
  define i :: nat where "i = (if a < b then (if b < c then 2 else 1) else (if a < c then 2 else 0))"
  have am: "np_argmax [a, b, c] = Inr i"
    by (simp add: np_argmax3 i_def)
  have i3: "i < 3" by (simp add: i_def)
  have "i = 0 \<or> i = 1 \<or> i = 2" by (simp add: i_def)
  then have "\<exists>l. map_of label_map i = Some l"
    by (elim disjE) (simp_all add: label_map_def)
  then obtain l where lab: "map_of label_map i = Some l" by blast
  have c: "classify model u logs =
       Inr \<lparr>final_result = l, final_scores = [a, b, c],
            session_logs = logs @ [\<lparr>Predicted = l, Confidence = max (max a b) c, Input = u\<rparr>]\<rparr>"
    using classify_no_override_len3 [of u x model a b c i l logs] assms(1,3) p am lab by simp
  have mx: "\<forall>j<3. model x ! j \<le> model x ! i"
    by (auto simp: all_less3 p i_def)
  have fst: "\<forall>j<i. model x ! j < model x ! i"
    by (auto simp: p i_def less_Suc_eq numeral_2_eq_2)
  show ?thesis
    using c i3 lab mx fst p by force
qed

theorem C5_model_label_without_override_witness:
  "input_data default_input = Inr [1, 25, 6, 5, 5, 5, 1, 5000]
   \<and> length (tied_model [1, 25, 6, 5, 5, 5, 1, 5000]) = 3
   \<and> override_rule default_input = None
   \<and> (\<exists>r i. classify tied_model default_input [] = Inr r
          \<and> final_scores r = tied_model [1, 25, 6, 5, 5, 5, 1, 5000]
          \<and> i < 3 \<and> map_of label_map i = Some (final_result r)
          \<and> (\<forall>j<3. tied_model [1, 25, 6, 5, 5, 5, 1, 5000] ! j
                      \<le> tied_model [1, 25, 6, 5, 5, 5, 1, 5000] ! i)
          \<and> (\<forall>j<i. tied_model [1, 25, 6, 5, 5, 5, 1, 5000] ! j
                      < tied_model [1, 25, 6, 5, 5, 5, 1, 5000] ! i))"
proof -
  note e = input_data_default
  have l: "length (tied_model [1, 25, 6, 5, 5, 5, 1, 5000]) = 3"
    by (simp add: tied_model_def)
  have ov: "override_rule default_input = None"
    by (simp add: override_rule_def default_input_def)
  from C5_model_label_without_override
         [of default_input "[1, 25, 6, 5, 5, 5, 1, 5000]" tied_model "[]"] e l ov
  show ?thesis by blast
qed

section \<open>Invariant of the blended confidences\<close>

text \<open>
  C9. For every input on which an override rule fires and every model output of
  three entries that all lie between 0 and 1, the entry 0.7 at the class index of
  the overriding label is strictly larger than the other two entries of the
  returned vector; hence the confidence recorded in the appended log entry is 0.7,
  and the first maximum of the returned vector is at the index of the returned
  label.
\<close>

theorem C9_override_is_top_confidence:
  assumes "input_data u = Inr x"
    and "length (model x) = 3"
    and "\<forall>c \<in> set (model x). 0 \<le> c \<and> c \<le> 1"
    and "override_rule u = Some l"
  shows "\<exists>r idx. classify model u logs = Inr r \<and> final_result r = l
            \<and> idx < 3 \<and> map_of label_map idx = Some l
            \<and> final_scores r ! idx = 0.7
            \<and> (\<forall>i<3. i \<noteq> idx \<longrightarrow> final_scores r ! i < final_scores r ! idx)
            \<and> session_logs r = logs @ [\<lparr>Predicted = l, Confidence = 0.7, Input = u\<rparr>]
            \<and> np_argmax (final_scores r) = Inr idx"
proof -
  obtain a b c where p: "model x = [a, b, c]"
    using assms(2) by (rule length3_cases)
  have le: "a \<le> 1" "b \<le> 1" "c \<le> 1"
    using assms(3) by (simp_all add: p)
  obtain k where k: "k < 3" "list_index (map snd label_map) l = Inr k"
    "map_of label_map k = Some l" "l \<noteq> []"
    using override_rule_index [OF assms(4)] by blast
  define v where "v = (map (\<lambda>s. s * 0.3) (model x))[k := 0.7]"
  from k(1) have kc: "k = 0 \<or> k = 1 \<or> k = 2" by arith
  have top: "np_max v = Inr 0.7"
    using kc le by (elim disjE) (simp_all add: v_def p np_max3)
  have am: "np_argmax v = Inr k"
    using kc le by (elim disjE) (simp_all add: v_def p np_argmax3)
  have vk: "v ! k = 0.7"
    using k(1) assms(2) by (simp add: v_def)
  have strict: "\<forall>i<3. i \<noteq> k \<longrightarrow> v ! i < v ! k"
    using kc le by (elim disjE) (simp_all add: v_def p all_less3)
  from classify_override_len3 [of u x model l k logs] assms(1,2,4) k
  obtain t where t: "np_max v = Inr t"
    "classify model u logs =
       Inr \<lparr>final_result = l, final_scores = v,
            session_logs = logs @ [\<lparr>Predicted = l, Confidence = t, Input = u\<rparr>]\<rparr>"
    unfolding v_def by blast
  from t(1) top have "t = 0.7" by simp
  with t(2) have "classify model u logs =
       Inr \<lparr>final_result = l, final_scores = v,
            session_logs = logs @ [\<lparr>Predicted = l, Confidence = 0.7, Input = u\<rparr>]\<rparr>"
    by simp
  then show ?thesis
    using k(1,3) vk strict am by force
qed

theorem C9_override_is_top_confidence_witness:
  "input_data example_anxiety_input = Inr [1, 25, 6, 2, 5, 9, 1, 5000]
   \<and> length (example_model [1, 25, 6, 2, 5, 9, 1, 5000]) = 3
   \<and> list_all (\<lambda>c. 0 \<le> c \<and> c \<le> 1) (example_model [1, 25, 6, 2, 5, 9, 1, 5000])
   \<and> override_rule example_anxiety_input = Some ''Anxiety''
   \<and> (\<exists>r idx. classify example_model example_anxiety_input [] = Inr r
          \<and> final_result r = ''Anxiety''
          \<and> idx < 3 \<and> map_of label_map idx = Some ''Anxiety''
          \<and> final_scores r ! idx = 0.7
          \<and> (\<forall>i<3. i \<noteq> idx \<longrightarrow> final_scores r ! i < final_scores r ! idx)
          \<and> session_logs r
              = [] @ [\<lparr>Predicted = ''Anxiety'', Confidence = 0.7, Input = example_anxiety_input\<rparr>]
          \<and> np_argmax (final_scores r) = Inr idx)"
proof -
  note e = input_data_anxiety
  have l: "length (example_model [1, 25, 6, 2, 5, 9, 1, 5000]) = 3"
    by (simp add: example_model_def)
  have b: "\<forall>c \<in> set (example_model [1, 25, 6, 2, 5, 9, 1, 5000]). 0 \<le> c \<and> c \<le> 1"
    by (simp add: example_model_def)
  have ov: "override_rule example_anxiety_input = Some ''Anxiety''"
    by (simp add: override_rule_def example_anxiety_input_def)
  have b': "list_all (\<lambda>c. 0 \<le> c \<and> c \<le> 1) (example_model [1, 25, 6, 2, 5, 9, 1, 5000])"
    by (simp add: example_model_def)
  from C9_override_is_top_confidence
         [of example_anxiety_input "[1, 25, 6, 2, 5, 9, 1, 5000]" example_model "''Anxiety''" "[]"]
       e l b b' ov
  show ?thesis by blast
qed

section \<open>Feature encoding\<close>

text \<open>
  C6. For every input whose BMI category is one of the four options of the form,
  the encoder succeeds with the eight numbers gender, age, sleep duration, quality
  of sleep, physical activity, stress level, BMI category, daily steps, in this
  order, where the gender is 1 for "Male" and 0 for "Female" and the BMI category
  is 0 for "Underweight", 1 for "Normal", 2 for "Overweight" and 3 for "Obese".
  The encoder is a function, so the vector is determined by the input.
\<close>

theorem C6_feature_vector:
  assumes "BMI u \<in> {''Underweight'', ''Normal'', ''Overweight'', ''Obese''}"
  shows "\<exists>g b. input_data u =
            Inr [g, of_int (Age u), Sleep_Duration u, of_int (Quality_of_Sleep u),
                 of_int (Physical_Activity u), of_int (Stress_Level u), b,
                 of_int (Daily_Steps u)]
          \<and> (Gender u = ''Male'' \<longrightarrow> g = 1) \<and> (Gender u = ''Female'' \<longrightarrow> g = 0)
          \<and> (BMI u = ''Underweight'' \<longrightarrow> b = 0) \<and> (BMI u = ''Normal'' \<longrightarrow> b = 1)
          \<and> (BMI u = ''Overweight'' \<longrightarrow> b = 2) \<and> (BMI u = ''Obese'' \<longrightarrow> b = 3)"
proof -
  from assms consider "BMI u = ''Underweight''" | "BMI u = ''Normal''"
    | "BMI u = ''Overweight''" | "BMI u = ''Obese''"
    by auto
  then show ?thesis
    by cases (simp_all add: input_defs)
qed

theorem C6_feature_vector_witness:
  "BMI example_depression_input \<in> {''Underweight'', ''Normal'', ''Overweight'', ''Obese''}
   \<and> input_data example_depression_input = Inr [0, 40, 3.5, 5, 1, 7, 2, 2000]"
proof -
  have h: "BMI example_depression_input \<in> {''Underweight'', ''Normal'', ''Overweight'', ''Obese''}"
    by (simp add: example_depression_input_def)
  from C6_feature_vector [OF h] h show ?thesis
    by (auto simp: example_depression_input_def)
qed

section \<open>Tip generator\<close>

text \<open>
  C7. For every input, the tips returned are exactly the tips of the eight rules of
  the specification whose condition holds, in the listed order; every tip occurs
  at most once; the low-sleep tip and the oversleep tip never occur together; and
  the input with sleep duration 7, quality of sleep 8, physical activity 5, stress
  level 2, 8000 daily steps, BMI category "Normal" and age 30 gives the empty list,
  for either gender.
\<close>

theorem C7_tips_follow_rules:
  "generate_input_tips gender age sleep_duration quality_of_sleep physical_activity stress_level
       bmi_category daily_steps
     = spec_tips age sleep_duration quality_of_sleep physical_activity stress_level
         bmi_category daily_steps
   \<and> subseq (generate_input_tips gender age sleep_duration quality_of_sleep physical_activity
         stress_level bmi_category daily_steps)
       [tip_low_sleep, tip_oversleep, tip_sleep_quality, tip_activity, tip_stress,
        tip_steps, tip_diet, tip_elder]
   \<and> distinct (generate_input_tips gender age sleep_duration quality_of_sleep physical_activity
         stress_level bmi_category daily_steps)
   \<and> \<not> (tip_low_sleep \<in> set (generate_input_tips gender age sleep_duration quality_of_sleep
            physical_activity stress_level bmi_category daily_steps)
        \<and> tip_oversleep \<in> set (generate_input_tips gender age sleep_duration quality_of_sleep
            physical_activity stress_level bmi_category daily_steps))
   \<and> generate_input_tips gender 30 7 8 5 2 ''Normal'' 8000 = []"
proof -
  let ?t = "generate_input_tips gender age sleep_duration quality_of_sleep physical_activity
       stress_level bmi_category daily_steps"
  let ?all = "[tip_low_sleep, tip_oversleep, tip_sleep_quality, tip_activity, tip_stress,
        tip_steps, tip_diet, tip_elder]"
  note eq = generate_input_tips_spec [of gender age sleep_duration quality_of_sleep
      physical_activity stress_level bmi_category daily_steps]
  have sub: "subseq ?t ?all"
    unfolding eq by (rule spec_tips_sublist)
  have dist: "distinct ?t"
    using sub tips_distinct by (rule subseq_distinct)
  have excl: "\<not> (tip_low_sleep \<in> set ?t \<and> tip_oversleep \<in> set ?t)"
  proof
    assume both: "tip_low_sleep \<in> set ?t \<and> tip_oversleep \<in> set ?t"
    have low: "sleep_duration < 6"
      using both tip_low_sleep_fires unfolding eq by blast
    have over: "\<not> sleep_duration < 6"
      using both tip_oversleep_fires unfolding eq by blast
    from low over show False by simp
  qed
  have ex: "generate_input_tips gender 30 7 8 5 2 ''Normal'' 8000 = []"
    by (simp add: generate_input_tips_def)
  show ?thesis
    using eq sub dist excl ex by blast
qed

theorem C7_tips_follow_rules_witness:
  "generate_input_tips ''Female'' 40 3.5 5 1 7 ''Overweight'' 2000
     = spec_tips 40 3.5 5 1 7 ''Overweight'' 2000
   \<and> generate_input_tips ''Female'' 40 3.5 5 1 7 ''Overweight'' 2000
     = [tip_low_sleep, tip_stress, tip_steps]
   \<and> generate_input_tips ''Female'' 30 7 8 5 2 ''Normal'' 8000 = []"
proof -
  have s: "spec_tips 40 3.5 5 1 7 ''Overweight'' 2000 = [tip_low_sleep, tip_stress, tip_steps]"
    by (simp add: spec_tips_def spec_tip_rules_def)
  from C7_tips_follow_rules [of "''Female''" 40 "3.5" 5 1 7 "''Overweight''" 2000] s
  show ?thesis by simp
qed

text \<open>
  C10. Two inputs that agree on every field except the gender get the same list
  of tips.
\<close>

theorem C10_tips_ignore_gender:
  assumes "Age u = Age v"
    and "Sleep_Duration u = Sleep_Duration v"
    and "Quality_of_Sleep u = Quality_of_Sleep v"
    and "Physical_Activity u = Physical_Activity v"
    and "Stress_Level u = Stress_Level v"
    and "BMI u = BMI v"
    and "Daily_Steps u = Daily_Steps v"
  shows "input_tips u = input_tips v"
  using assms by (simp add: input_tips_def generate_input_tips_def)

theorem C10_tips_ignore_gender_witness:
  "Age example_depression_input = Age (example_depression_input\<lparr>Gender := ''Male''\<rparr>)
   \<and> Gender example_depression_input \<noteq> Gender (example_depression_input\<lparr>Gender := ''Male''\<rparr>)
   \<and> input_tips example_depression_input
       = input_tips (example_depression_input\<lparr>Gender := ''Male''\<rparr>)
   \<and> input_tips example_depression_input = [tip_low_sleep, tip_stress, tip_steps]"
proof -
  have g: "Gender example_depression_input
      \<noteq> Gender (example_depression_input\<lparr>Gender := ''Male''\<rparr>)"
    by (simp add: example_depression_input_def)
  have t: "input_tips example_depression_input = [tip_low_sleep, tip_stress, tip_steps]"
    by (simp add: input_tips_def generate_input_tips_def example_depression_input_def)
  from C10_tips_ignore_gender
         [of example_depression_input "example_depression_input\<lparr>Gender := ''Male''\<rparr>"] g t
  show ?thesis by simp
qed

section \<open>Model outputs that are not three entries long\<close>

text \<open>
  C8, as the specification states it, fails: a model output of four entries whose
  first maximum is among the first three is accepted. On the default values of the
  form no override fires, and the output [0.5, 0.2, 0.2, 0.1] is classified as
  "No Disorder", with the four scores returned and a log entry appended.
\<close>

theorem C8_four_entries_accepted:
  "input_data default_input = Inr [1, 25, 6, 5, 5, 5, 1, 5000]
   \<and> length (four_class_model [1, 25, 6, 5, 5, 5, 1, 5000]) \<noteq> 3
   \<and> classify four_class_model default_input []
       = Inr \<lparr>final_result = ''No Disorder'', final_scores = [0.5, 0.2, 0.2, 0.1],
              session_logs = [\<lparr>Predicted = ''No Disorder'', Confidence = 0.5,
                                Input = default_input\<rparr>]\<rparr>"
proof -
  have ov: "override_rule default_input = None"
    by (simp add: override_rule_def default_input_def)
  have len: "length (four_class_model [1, 25, 6, 5, 5, 5, 1, 5000]) \<noteq> 3"
    by (simp add: four_class_model_def)
  have "classify four_class_model default_input []
       = Inr \<lparr>final_result = ''No Disorder'', final_scores = [0.5, 0.2, 0.2, 0.1],
              session_logs = [\<lparr>Predicted = ''No Disorder'', Confidence = 0.5,
                                Input = default_input\<rparr>]\<rparr>"
    using input_data_default ov
    by (simp add: classify_def four_class_model_def np_argmax_def label_of_def label_map_def
        apply_override_def np_max_def)
  then show ?thesis
    using input_data_default len by simp
qed

text \<open>
  C8, amended. The code checks nothing about the model output; it fails exactly
  where one of its own steps raises. For an input that the encoder accepts:
  an empty output raises \<^verbatim>\<open>ValueError\<close> in \<^verbatim>\<open>np.argmax\<close>; an output whose first
  maximum is at index 3 or beyond raises \<^verbatim>\<open>KeyError\<close> in the label lookup; an
  output too short to hold the class index of a firing override raises
  \<^verbatim>\<open>IndexError\<close> in the assignment of 0.7. The exception is the result of the
  whole classification: no label, no scores and no log entry are produced. Every
  other output, also one that is not three entries long, is accepted: the
  classification succeeds, returns as many scores as the model gave and appends one
  log entry with the returned label.
\<close>

theorem C8_model_output_failures:
  assumes "input_data u = Inr x"
  shows "(model x = [] \<longrightarrow> classify model u logs = Inl ValueError)
       \<and> (\<forall>i. np_argmax (model x) = Inr i \<and> 3 \<le> i \<longrightarrow> classify model u logs = Inl KeyError)
       \<and> (\<forall>i l k. np_argmax (model x) = Inr i \<and> i < 3 \<and> override_rule u = Some l
             \<and> list_index (map snd label_map) l = Inr k \<and> length (model x) \<le> k
             \<longrightarrow> classify model u logs = Inl IndexError)
       \<and> (\<forall>i. np_argmax (model x) = Inr i \<and> i < 3
             \<and> (\<forall>l k. override_rule u = Some l \<and> list_index (map snd label_map) l = Inr k
                    \<longrightarrow> k < length (model x))
             \<longrightarrow> (\<exists>r e. classify model u logs = Inr r
                    \<and> length (final_scores r) = length (model x)
                    \<and> session_logs r = logs @ [e] \<and> Predicted e = final_result r))"
proof (intro conjI allI impI)
  assume "model x = []"
  then show "classify model u logs = Inl ValueError"
    using assms by (simp add: classify_def np_argmax_def)
next
  fix i
  assume "np_argmax (model x) = Inr i \<and> 3 \<le> i"
  then show "classify model u logs = Inl KeyError"
    using assms by (simp add: classify_def label_of_large)
next
  fix i l k
  assume h: "np_argmax (model x) = Inr i \<and> i < 3 \<and> override_rule u = Some l
             \<and> list_index (map snd label_map) l = Inr k \<and> length (model x) \<le> k"
  then obtain base where base: "label_of i = Inr base"
    using label_of_small [of i] by blast
  have ne: "l \<noteq> []"
    using h override_rule_index [of u l] by blast
  have "blend l (model x) = Inl IndexError"
    using h blend_short by blast
  then have "apply_override (override_rule u) base (model x) = Inl IndexError"
    using h ne by (simp add: apply_override_def)
  then show "classify model u logs = Inl IndexError"
    using assms h base by (simp add: classify_def)
next
  fix i
  assume h: "np_argmax (model x) = Inr i \<and> i < 3
             \<and> (\<forall>l k. override_rule u = Some l \<and> list_index (map snd label_map) l = Inr k
                    \<longrightarrow> k < length (model x))"
  then obtain base where base: "label_of i = Inr base"
    using label_of_small [of i] by blast
  have nonempty: "model x \<noteq> []"
    using h np_argmax_Inr_nonempty by blast
  have "\<exists>l v. apply_override (override_rule u) base (model x) = Inr (l, v)
          \<and> length v = length (model x)"
  proof (cases "override_rule u")
    case None
    then show ?thesis by (simp add: apply_override_def)
  next
    case (Some l)
    then obtain k where k: "list_index (map snd label_map) l = Inr k" "l \<noteq> []"
      using override_rule_index [of u l] by blast
    then have "k < length (model x)"
      using h Some by blast
    then have "blend l (model x) = Inr ((map (\<lambda>s. s * 0.3) (model x))[k := 0.7])"
      using k(1) blend_fits by blast
    then show ?thesis
      using Some k(2) by (simp add: apply_override_def)
  qed
  then obtain l v where lv: "apply_override (override_rule u) base (model x) = Inr (l, v)"
    "length v = length (model x)"
    by blast
  have "v \<noteq> []"
    using lv(2) nonempty by auto
  from classify_after_override [of u x model i base l v logs] assms h base lv(1) this
  obtain r e where "classify model u logs = Inr r" "final_result r = l" "final_scores r = v"
    "session_logs r = logs @ [e]" "Predicted e = l"
    by blast
  then show "\<exists>r e. classify model u logs = Inr r
                    \<and> length (final_scores r) = length (model x)
                    \<and> session_logs r = logs @ [e] \<and> Predicted e = final_result r"
    using lv(2) by auto
qed

theorem C8_model_output_failures_witness:
  "input_data default_input = Inr [1, 25, 6, 5, 5, 5, 1, 5000]
   \<and> silent_model [1, 25, 6, 5, 5, 5, 1, 5000] = []
   \<and> classify silent_model default_input [] = Inl ValueError
   \<and> np_argmax (late_peak_model [1, 25, 6, 5, 5, 5, 1, 5000]) = Inr 3
   \<and> classify late_peak_model default_input [] = Inl KeyError
   \<and> input_data example_depression_input = Inr [0, 40, 3.5, 5, 1, 7, 2, 2000]
   \<and> np_argmax (two_class_model [0, 40, 3.5, 5, 1, 7, 2, 2000]) = Inr 0
   \<and> override_rule example_depression_input = Some ''Depression''
   \<and> list_index (map snd label_map) ''Depression'' = Inr 2
   \<and> length (two_class_model [0, 40, 3.5, 5, 1, 7, 2, 2000]) \<le> 2
   \<and> classify two_class_model example_depression_input [] = Inl IndexError
   \<and> np_argmax (four_class_model [1, 25, 6, 5, 5, 5, 1, 5000]) = Inr 0
   \<and> override_rule default_input = None
   \<and> (\<exists>r e. classify four_class_model default_input [] = Inr r
          \<and> length (final_scores r) = length (four_class_model [1, 25, 6, 5, 5, 5, 1, 5000])
          \<and> session_logs r = [] @ [e] \<and> Predicted e = final_result r)"
proof -
  note e = input_data_default
  note d = input_data_depression
  have m: "silent_model [1, 25, 6, 5, 5, 5, 1, 5000] = []"
    by (simp add: silent_model_def)
  have a3: "np_argmax (late_peak_model [1, 25, 6, 5, 5, 5, 1, 5000]) = Inr 3"
    by (simp add: late_peak_model_def np_argmax_def)
  have a2: "np_argmax (two_class_model [0, 40, 3.5, 5, 1, 7, 2, 2000]) = Inr 0"
    by (simp add: two_class_model_def np_argmax_def)
  have ovd: "override_rule example_depression_input = Some ''Depression''"
    by (simp add: override_rule_def example_depression_input_def)
  have l2: "length (two_class_model [0, 40, 3.5, 5, 1, 7, 2, 2000]) \<le> 2"
    by (simp add: two_class_model_def)
  have a4: "np_argmax (four_class_model [1, 25, 6, 5, 5, 5, 1, 5000]) = Inr 0"
    by (simp add: four_class_model_def np_argmax_def)
  have ovn: "override_rule default_input = None"
    by (simp add: override_rule_def default_input_def)
  have c1: "classify silent_model default_input [] = Inl ValueError"
    using C8_model_output_failures
            [of default_input "[1, 25, 6, 5, 5, 5, 1, 5000]" silent_model "[]"] e m
    by blast
  have c2: "classify late_peak_model default_input [] = Inl KeyError"
    using C8_model_output_failures
            [of default_input "[1, 25, 6, 5, 5, 5, 1, 5000]" late_peak_model "[]"] e a3
    by simp
  have c3: "classify two_class_model example_depression_input [] = Inl IndexError"
    using C8_model_output_failures
            [of example_depression_input "[0, 40, 3.5, 5, 1, 7, 2, 2000]" two_class_model "[]"]
          d a2 ovd label_index(3) l2
    by simp
  have c4: "\<exists>r e. classify four_class_model default_input [] = Inr r
          \<and> length (final_scores r) = length (four_class_model [1, 25, 6, 5, 5, 5, 1, 5000])
          \<and> session_logs r = [] @ [e] \<and> Predicted e = final_result r"
    using C8_model_output_failures
            [of default_input "[1, 25, 6, 5, 5, 5, 1, 5000]" four_class_model "[]"] e a4 ovn
    by simp
  show ?thesis
    using e m c1 a3 c2 d a2 ovd label_index(3) l2 c3 a4 ovn c4 by blast
qed

end
